theory Spec2Isabelle
  imports Main
begin

section \<open>JavaScript values used by the reader\<close>

text \<open>
  A JavaScript \<^verbatim>\<open>Date\<close> holds a time value in milliseconds since the epoch, or NaN
  (an "Invalid Date"). \<open>None\<close> is the invalid date.  The relational operator
  \<^verbatim>\<open>a > b\<close> on two dates compares the time values as numbers, and every comparison
  with NaN is false.
\<close>

type_synonym js_date = "int option"

fun date_gt :: "js_date \<Rightarrow> js_date \<Rightarrow> bool" where
  "date_gt (Some x) (Some y) = (y < x)"
| "date_gt _ _ = False"

text \<open>
  A JavaScript \<^verbatim>\<open>Map\<close> keeps its entries in insertion order, with one entry per key.
  \<^verbatim>\<open>set\<close> on a key that is present replaces the value where the entry stands,
  \<^verbatim>\<open>set\<close> on a new key appends an entry.  The keys of the reader are strings or
  \<^verbatim>\<open>undefined\<close> (\<open>None\<close>).
\<close>

type_synonym ('k, 'v) js_map = "('k \<times> 'v) list"

fun map_get :: "('k, 'v) js_map \<Rightarrow> 'k \<Rightarrow> 'v option" where
  "map_get [] k = None"
| "map_get ((k', v') # m) k = (if k' = k then Some v' else map_get m k)"

fun map_set :: "('k, 'v) js_map \<Rightarrow> 'k \<Rightarrow> 'v \<Rightarrow> ('k, 'v) js_map" where
  "map_set [] k v = [(k, v)]"
| "map_set ((k', v') # m) k v = (if k' = k then (k, v) # m else (k', v') # map_set m k v)"

definition map_values :: "('k, 'v) js_map \<Rightarrow> 'v list" where
  "map_values m = map snd m"

section \<open>The canonical model of \<^verbatim>\<open>main.js\<close>\<close>

text \<open>
  An article object has the fields \<^verbatim>\<open>title\<close>, \<^verbatim>\<open>link\<close>, \<^verbatim>\<open>id\<close>,
  \<^verbatim>\<open>published\<close> and \<^verbatim>\<open>updated\<close>; the first three are strings or
  \<^verbatim>\<open>undefined\<close>.
\<close>

record article =
  a_title :: "string option"
  a_link :: "string option"
  a_id :: "string option"
  a_published :: js_date
  a_updated :: js_date

text \<open>
  A feed object has the fields \<^verbatim>\<open>title\<close>, \<^verbatim>\<open>description\<close>, \<^verbatim>\<open>link\<close>,
  \<^verbatim>\<open>id\<close>, \<^verbatim>\<open>articles\<close> and \<^verbatim>\<open>updated\<close>.  A freshly normalized feed carries
  its articles in an array, a stored feed carries them in a \<^verbatim>\<open>Map\<close> keyed by article id.
\<close>

record 'arts feed =
  f_title :: "string option"
  f_description :: "string option"
  f_link :: "string option"
  f_id :: "string option"
  f_articles :: 'arts
  f_updated :: js_date

type_synonym article_map = "(string option, article) js_map"
type_synonym new_feed = "article list feed"
type_synonym stored_feed = "article_map feed"
type_synonym store = "(string option, stored_feed) js_map"

section \<open>Merging a normalized feed into the store\<close>

text \<open>
  The body of the inner loop of \<^verbatim>\<open>updateFeeds\<close>: an article is stored when the feed
  holds none under its id, or when its \<^verbatim>\<open>updated\<close> is greater than the stored one's.
\<close>

definition storeArticle :: "article_map \<Rightarrow> article \<Rightarrow> article_map" where
  "storeArticle articles newArticle =
     (case map_get articles (a_id newArticle) of
        None \<Rightarrow> map_set articles (a_id newArticle) newArticle
      | Some article \<Rightarrow>
          if date_gt (a_updated newArticle) (a_updated article)
          then map_set articles (a_id newArticle) newArticle
          else articles)"

text \<open>
  The body of the outer loop.  The feed found in the store (or the one just created and
  inserted) is an object shared with the store, so the articles written to it are written
  to the store's entry: the last \<open>map_set\<close> is that write.
\<close>

definition mergeFeed :: "store \<Rightarrow> new_feed \<Rightarrow> store" where
  "mergeFeed feeds newFeed =
     (let (feeds', feed) =
            (case map_get feeds (f_id newFeed) of
               Some feed \<Rightarrow> (feeds, feed)
             | None \<Rightarrow>
                 (let feed = \<lparr> f_title = f_title newFeed,
                               f_description = f_description newFeed,
                               f_link = f_link newFeed,
                               f_id = f_id newFeed,
                               f_articles = [],
                               f_updated = f_updated newFeed \<rparr>
                  in (map_set feeds (f_id newFeed) feed, feed)))
      in map_set feeds' (f_id newFeed)
           (feed \<lparr> f_articles := foldl storeArticle (f_articles feed) (f_articles newFeed) \<rparr>))"

definition mergeFeeds :: "store \<Rightarrow> new_feed list \<Rightarrow> store" where
  "mergeFeeds feeds newFeeds = foldl mergeFeed feeds newFeeds"

text \<open>
  An incoming article is settled in an article map when the map holds an article under
  its id that the incoming one is not newer than: storing it then changes nothing.
\<close>

definition settled :: "article_map \<Rightarrow> article \<Rightarrow> bool" where
  "settled m b = (case map_get m (a_id b) of
                    None \<Rightarrow> False
                  | Some s \<Rightarrow> \<not> date_gt (a_updated b) (a_updated s))"

section \<open>Saving and loading the store\<close>

text \<open>
  \<^verbatim>\<open>JSON.stringify\<close> writes a date through \<^verbatim>\<open>Date.prototype.toJSON\<close>: the ISO 8601
  text of the time value (with milliseconds), or \<^verbatim>\<open>null\<close> for an invalid date.
  \<open>JIso t\<close> stands for the ISO text of the time value \<open>t\<close>, which \<^verbatim>\<open>new Date\<close> reads
  back to \<open>t\<close>; \<open>JMissing\<close> is a field that the file does not have.  A field whose value
  is \<^verbatim>\<open>undefined\<close> is left out by \<^verbatim>\<open>JSON.stringify\<close> and read as \<^verbatim>\<open>undefined\<close>
  again.
\<close>

datatype json_time = JMissing | JNull | JIso int

definition toJSON :: "js_date \<Rightarrow> json_time" where
  "toJSON d = (case d of None \<Rightarrow> JNull | Some t \<Rightarrow> JIso t)"

fun newDate_json :: "json_time \<Rightarrow> js_date" where
  "newDate_json JMissing = None"
| "newDate_json JNull = Some 0"
| "newDate_json (JIso t) = Some t"

record raw_article =
  r_title :: "string option"
  r_link :: "string option"
  r_id :: "string option"
  r_published :: json_time
  r_updated :: json_time

record raw_feed =
  rf_title :: "string option"
  rf_description :: "string option"
  rf_link :: "string option"
  rf_id :: "string option"
  rf_articles :: "raw_article list"
  rf_updated :: json_time

text \<open>The array \<^verbatim>\<open>flattened\<close> of \<^verbatim>\<open>updateFeeds\<close>, as \<^verbatim>\<open>JSON.stringify\<close> writes it.\<close>

definition article_json :: "article \<Rightarrow> raw_article" where
  "article_json article =
     \<lparr> r_title = a_title article, r_link = a_link article, r_id = a_id article,
       r_published = toJSON (a_published article), r_updated = toJSON (a_updated article) \<rparr>"

definition flattened :: "store \<Rightarrow> raw_feed list" where
  "flattened feeds =
     map (\<lambda>feed. \<lparr> rf_title = f_title feed,
                   rf_description = f_description feed,
                   rf_link = f_link feed,
                   rf_id = f_id feed,
                   rf_articles = map article_json (map_values (f_articles feed)),
                   rf_updated = toJSON (f_updated feed) \<rparr>)
         (map_values feeds)"

text \<open>
  The loader at the top of \<^verbatim>\<open>main.js\<close>.  It reads \<^verbatim>\<open>published\<close> for both dates of an
  article.
\<close>

definition loadArticle :: "raw_article \<Rightarrow> article" where
  "loadArticle rawArticle =
     \<lparr> a_title = r_title rawArticle,
       a_link = r_link rawArticle,
       a_id = r_id rawArticle,
       a_published = newDate_json (r_published rawArticle),
       a_updated = newDate_json (r_published rawArticle) \<rparr>"

definition loadArticles :: "raw_article list \<Rightarrow> article_map" where
  "loadArticles rawArticles =
     foldl (\<lambda>articles rawArticle.
              let article = loadArticle rawArticle
              in map_set articles (a_id article) article)
           [] rawArticles"

definition loadFeed :: "raw_feed \<Rightarrow> stored_feed" where
  "loadFeed rawFeed =
     \<lparr> f_title = rf_title rawFeed,
       f_description = rf_description rawFeed,
       f_link = rf_link rawFeed,
       f_id = rf_id rawFeed,
       f_articles = loadArticles (rf_articles rawFeed),
       f_updated = newDate_json (rf_updated rawFeed) \<rparr>"

definition loadFeeds :: "raw_feed list \<Rightarrow> store" where
  "loadFeeds rawFeedList =
     foldl (\<lambda>feeds rawFeed.
              let feed = loadFeed rawFeed
              in map_set feeds (f_id feed) feed)
           [] rawFeedList"

section \<open>Normalizing a downloaded document\<close>

text \<open>
  What \<^verbatim>\<open>XMLParser.parse\<close> returns, as far as \<^verbatim>\<open>updateFeeds\<close> reads it.  With
  \<^verbatim>\<open>alwaysCreateTextNode\<close> an element is an object whose text is its member
  \<^verbatim>\<open>#text\<close>; attributes are the members \<^verbatim>\<open>@_rel\<close> and \<^verbatim>\<open>@_href\<close>.  A member that
  the document does not have is \<^verbatim>\<open>undefined\<close> (\<open>None\<close>).  Texts are taken as strings.
\<close>

record xml_node =
  n_text :: "string option"
  n_rel :: "string option"
  n_href :: "string option"

record rss_item =
  i_title :: "xml_node option"
  i_link :: "xml_node option"
  i_guid :: "xml_node option"
  i_pubDate :: "xml_node option"

record rss_channel =
  c_title :: "xml_node option"
  c_description :: "xml_node option"
  c_link :: "xml_node option"
  c_item :: "rss_item list option"
  c_lastBuildDate :: "xml_node option"
  c_pubDate :: "xml_node option"

record xml_rss =
  rss_channel :: "rss_channel option"

record atom_entry =
  e_title :: "xml_node option"
  e_link :: "xml_node list option"
  e_id :: "xml_node option"
  e_published :: "xml_node option"
  e_updated :: "xml_node option"

text \<open>
  Only \<^verbatim>\<open>rss.channel.item\<close>, \<^verbatim>\<open>feed.entry\<close> and \<^verbatim>\<open>feed.entry.link\<close> are forced to
  arrays, so the \<^verbatim>\<open>link\<close> of an Atom feed is one object when the feed has one link
  element and an array when it has several.
\<close>

datatype atom_links = OneLink xml_node | Links "xml_node list"

record atom_feed =
  t_title :: "xml_node option"
  t_subtitle :: "xml_node option"
  t_link :: "atom_links option"
  t_id :: "xml_node option"
  t_entry :: "atom_entry list option"
  t_updated :: "xml_node option"

record xml_doc =
  d_rss :: "xml_rss option"
  d_feed :: "atom_feed option"

text \<open>
  The library functions and the clock, as parameters: \<^verbatim>\<open>sanitizeHtml\<close>, the
  \<^verbatim>\<open>href\<close> of \<^verbatim>\<open>new URL(s)\<close> (\<open>None\<close> when the constructor throws),
  \<^verbatim>\<open>Date.parse\<close> (the time value of \<^verbatim>\<open>new Date(s)\<close> for a string), the validating
  \<^verbatim>\<open>XMLParser.parse\<close> (\<open>None\<close> when it throws) and the clock.  \<open>clock env n\<close> is
  the time value of the \<open>n\<close>-th \<^verbatim>\<open>new Date()\<close> of a cycle, counted from 0: every
  \<^verbatim>\<open>new Date()\<close> reads the clock anew, and the functions below pass on the number of
  readings made so far.
\<close>

record env =
  sanitizeHtml :: "string option \<Rightarrow> string"
  URL_href :: "string \<Rightarrow> string option"
  Date_parse :: "string \<Rightarrow> js_date"
  XMLParser_parse :: "string \<Rightarrow> xml_doc option"
  clock :: "nat \<Rightarrow> int"

datatype js_error = TypeError | XMLError

text \<open>\<^verbatim>\<open>new URL(x).href\<close>; an \<^verbatim>\<open>undefined\<close> argument is converted to the string "undefined".\<close>

definition newURL :: "env \<Rightarrow> string option \<Rightarrow> js_error + string" where
  "newURL env x =
     (case URL_href env (case x of None \<Rightarrow> ''undefined'' | Some s \<Rightarrow> s) of
        None \<Rightarrow> Inl TypeError
      | Some href \<Rightarrow> Inr href)"

text \<open>\<^verbatim>\<open>new Date(x)\<close> for a string or \<^verbatim>\<open>undefined\<close>; the latter gives an invalid date.\<close>

definition newDate :: "env \<Rightarrow> string option \<Rightarrow> js_date" where
  "newDate env x = (case x of None \<Rightarrow> None | Some s \<Rightarrow> Date_parse env s)"

text \<open>\<^verbatim>\<open>node && node["#text"]\<close> as a condition: the text is defined and not empty.\<close>

definition has_text :: "xml_node option \<Rightarrow> bool" where
  "has_text node = (case node of
                      None \<Rightarrow> False
                    | Some n \<Rightarrow> (case n_text n of None \<Rightarrow> False | Some s \<Rightarrow> s \<noteq> []))"

text \<open>The \<^verbatim>\<open>#text\<close> of a node that a condition has shown to be there.\<close>

definition text_of :: "xml_node option \<Rightarrow> string option" where
  "text_of node = (case node of None \<Rightarrow> None | Some n \<Rightarrow> n_text n)"

text \<open>\<^verbatim>\<open>sanitizeHtml(node["#text"] ?? "")\<close>\<close>

definition sanitized_text :: "env \<Rightarrow> xml_node \<Rightarrow> string" where
  "sanitized_text env node =
     sanitizeHtml env (Some (case n_text node of None \<Rightarrow> [] | Some s \<Rightarrow> s))"

text \<open>
  \<^verbatim>\<open>Array.prototype.map\<close> with a callback that may throw: the first throw ends it.  The
  callbacks of the reader read the clock twice at their start, for the two default dates
  of the article, so the element at hand is given the number \<open>n\<close> of readings before it
  and the next one \<open>n + 2\<close>.  The result comes with the number of readings after the map.
\<close>

fun mapThrow :: "(nat \<Rightarrow> 'a \<Rightarrow> js_error + 'b) \<Rightarrow> nat \<Rightarrow> 'a list \<Rightarrow> (js_error + 'b list) \<times> nat" where
  "mapThrow f n [] = (Inr [], n)"
| "mapThrow f n (x # xs) =
     (case f n x of
        Inl e \<Rightarrow> (Inl e, n + 2)
      | Inr y \<Rightarrow>
          (case mapThrow f (n + 2) xs of
             (Inl e, n') \<Rightarrow> (Inl e, n')
           | (Inr ys, n') \<Rightarrow> (Inr (y # ys), n')))"

definition defaultArticle :: "env \<Rightarrow> nat \<Rightarrow> article" where
  "defaultArticle env n =
     \<lparr> a_title = None, a_link = None, a_id = None,
       a_published = Some (clock env n), a_updated = Some (clock env (n + 1)) \<rparr>"

definition defaultFeed :: "env \<Rightarrow> nat \<Rightarrow> new_feed" where
  "defaultFeed env n =
     \<lparr> f_title = None, f_description = None, f_link = None, f_id = None,
       f_articles = [], f_updated = Some (clock env n) \<rparr>"

text \<open>The callback of \<^verbatim>\<open>rss.item.map\<close>, after \<open>n\<close> readings of the clock.\<close>

definition rssArticle :: "env \<Rightarrow> nat \<Rightarrow> rss_item \<Rightarrow> js_error + article" where
  "rssArticle env n item =
     (let article = defaultArticle env n;
          article = (case i_title item of
                       Some t \<Rightarrow> article \<lparr> a_title := Some (sanitized_text env t) \<rparr>
                     | None \<Rightarrow> article)
      in case (case i_link item of
                 Some l \<Rightarrow> (case newURL env (n_text l) of
                              Inl e \<Rightarrow> Inl e
                            | Inr href \<Rightarrow> Inr (article \<lparr> a_link := Some href \<rparr>))
               | None \<Rightarrow>
                   (case i_guid item of
                      Some g \<Rightarrow> (case newURL env (n_text g) of
                                   Inl e \<Rightarrow> Inl e
                                 | Inr href \<Rightarrow> Inr (article \<lparr> a_link := Some href \<rparr>))
                    | None \<Rightarrow> Inr article)) of
           Inl e \<Rightarrow> Inl e
         | Inr article \<Rightarrow>
             (let article = (case i_guid item of
                               Some g \<Rightarrow> article \<lparr> a_id := n_text g \<rparr>
                             | None \<Rightarrow>
                                 (case i_link item of
                                    Some l \<Rightarrow> article \<lparr> a_id := n_text l \<rparr>
                                  | None \<Rightarrow> article))
              in Inr (if has_text (i_pubDate item)
                      then (let d = newDate env (text_of (i_pubDate item))
                            in article \<lparr> a_published := d, a_updated := d \<rparr>)
                      else article)))"

text \<open>
  The \<^verbatim>\<open>rss\<close> branch of the \<^verbatim>\<open>try\<close> block, after \<open>n\<close> readings of the clock.  A
  throw leaves the feed as the assignments before it made it: \<open>Inl\<close> carries the error
  and that feed.  The second component is the number of readings after the branch.
\<close>

definition rssFeed ::
  "env \<Rightarrow> string \<Rightarrow> xml_rss \<Rightarrow> new_feed \<Rightarrow> nat \<Rightarrow> ((js_error \<times> new_feed) + new_feed) \<times> nat" where
  "rssFeed env url xml feed n =
     (case rss_channel xml of
        None \<Rightarrow> (Inl (TypeError, feed), n)
      | Some rss \<Rightarrow>
          (let feed = (case c_title rss of
                         Some t \<Rightarrow> feed \<lparr> f_title := Some (sanitized_text env t) \<rparr>
                       | None \<Rightarrow> feed);
               feed = (case c_description rss of
                         Some t \<Rightarrow> feed \<lparr> f_description := Some (sanitized_text env t) \<rparr>
                       | None \<Rightarrow> feed)
           in case (if has_text (c_link rss)
                    then (case newURL env (text_of (c_link rss)) of
                            Inl e \<Rightarrow> Inl (e, feed)
                          | Inr href \<Rightarrow> Inr (feed \<lparr> f_link := Some href, f_id := Some href \<rparr>))
                    else Inr (feed \<lparr> f_link := Some url, f_id := Some url \<rparr>)) of
                Inl thrown \<Rightarrow> (Inl thrown, n)
              | Inr feed \<Rightarrow>
                  (case c_item rss of
                     None \<Rightarrow> (Inl (TypeError, feed), n)
                   | Some items \<Rightarrow>
                       (case mapThrow (rssArticle env) n items of
                          (Inl e, n') \<Rightarrow> (Inl (e, feed), n')
                        | (Inr articles, n') \<Rightarrow>
                            (let feed = feed \<lparr> f_articles := articles \<rparr>
                             in (Inr (case c_lastBuildDate rss of
                                        Some d \<Rightarrow> feed \<lparr> f_updated := newDate env (n_text d) \<rparr>
                                      | None \<Rightarrow>
                                          (case c_pubDate rss of
                                             Some d \<Rightarrow> feed \<lparr> f_updated := newDate env (n_text d) \<rparr>
                                           | None \<Rightarrow> feed)), n'))))))"

text \<open>The callback of \<^verbatim>\<open>atom.entry.map\<close>, after \<open>n\<close> readings of the clock.\<close>

definition atomArticle :: "env \<Rightarrow> nat \<Rightarrow> atom_entry \<Rightarrow> js_error + article" where
  "atomArticle env n entry =
     (let article = defaultArticle env n;
          article = (case e_title entry of
                       Some t \<Rightarrow> article \<lparr> a_title := Some (sanitizeHtml env (n_text t)) \<rparr>
                     | None \<Rightarrow> article)
      in case (case e_link entry of
                 None \<Rightarrow> Inr article
               | Some links \<Rightarrow>
                   (case (case find (\<lambda>link. n_rel link = Some ''alternate'') links of
                            Some l \<Rightarrow> Some l
                          | None \<Rightarrow> (case links of [] \<Rightarrow> None | l # _ \<Rightarrow> Some l)) of
                      None \<Rightarrow> Inr article
                    | Some link_node \<Rightarrow>
                        (case newURL env (case n_href link_node of
                                            Some h \<Rightarrow> Some h
                                          | None \<Rightarrow> n_text link_node) of
                           Inl e \<Rightarrow> Inl e
                         | Inr href \<Rightarrow> Inr (article \<lparr> a_link := Some href \<rparr>)))) of
           Inl e \<Rightarrow> Inl e
         | Inr article \<Rightarrow>
             (let article = (case e_id entry of
                               Some i \<Rightarrow> article \<lparr> a_id := n_text i \<rparr>
                             | None \<Rightarrow> article);
                  article = (case e_published entry of
                               Some p \<Rightarrow> article \<lparr> a_published := newDate env (n_text p) \<rparr>
                             | None \<Rightarrow>
                                 (case e_updated entry of
                                    Some u \<Rightarrow> article \<lparr> a_published := newDate env (n_text u) \<rparr>
                                  | None \<Rightarrow> article))
              in case e_published entry of
                   Some p \<Rightarrow>
                     (case e_updated entry of
                        None \<Rightarrow> Inl TypeError
                      | Some u \<Rightarrow> Inr (article \<lparr> a_updated := newDate env (n_text u) \<rparr>))
                 | None \<Rightarrow> Inr article))"

text \<open>The \<^verbatim>\<open>feed\<close> branch of the \<^verbatim>\<open>try\<close> block, after \<open>n\<close> readings of the clock.\<close>

definition atomFeed ::
  "env \<Rightarrow> string \<Rightarrow> atom_feed \<Rightarrow> new_feed \<Rightarrow> nat \<Rightarrow> ((js_error \<times> new_feed) + new_feed) \<times> nat" where
  "atomFeed env url atom feed n =
     (let feed = (case t_title atom of
                    Some t \<Rightarrow> feed \<lparr> f_title := Some (sanitized_text env t) \<rparr>
                  | None \<Rightarrow> feed);
          feed = (case t_subtitle atom of
                    Some t \<Rightarrow> feed \<lparr> f_description := Some (sanitized_text env t) \<rparr>
                  | None \<Rightarrow> feed)
      in case (case t_link atom of
                 None \<Rightarrow> Inr (feed \<lparr> f_link := Some url \<rparr>)
               | Some (OneLink _) \<Rightarrow> Inl (TypeError, feed)
               | Some (Links links) \<Rightarrow>
                   (case find (\<lambda>link. n_rel link = Some ''self'') links of
                      None \<Rightarrow> Inl (TypeError, feed)
                    | Some self \<Rightarrow>
                        (case newURL env (Some (case n_href self of Some h \<Rightarrow> h | None \<Rightarrow> url)) of
                           Inl e \<Rightarrow> Inl (e, feed)
                         | Inr href \<Rightarrow> Inr (feed \<lparr> f_link := Some href \<rparr>)))) of
           Inl thrown \<Rightarrow> (Inl thrown, n)
         | Inr feed \<Rightarrow>
             (let feed = (case t_id atom of
                            Some i \<Rightarrow> feed \<lparr> f_id := n_text i \<rparr>
                          | None \<Rightarrow> feed)
              in case t_entry atom of
                   None \<Rightarrow> (Inl (TypeError, feed), n)
                 | Some entries \<Rightarrow>
                     (case mapThrow (atomArticle env) n entries of
                        (Inl e, n') \<Rightarrow> (Inl (e, feed), n')
                      | (Inr articles, n') \<Rightarrow>
                          (let feed = feed \<lparr> f_articles := articles \<rparr>
                           in (Inr (if has_text (t_updated atom)
                                    then feed \<lparr> f_updated := newDate env (text_of (t_updated atom)) \<rparr>
                                    else feed), n')))))"

text \<open>
  The callback that builds \<^verbatim>\<open>newFeeds\<close>, after \<open>n\<close> readings of the clock: the
  default feed takes one reading, the \<^verbatim>\<open>catch\<close> logs the error, and the feed is
  returned whether the \<^verbatim>\<open>try\<close> block finished, threw, or took neither branch.
\<close>

definition tryBlock ::
  "env \<Rightarrow> string \<Rightarrow> string \<Rightarrow> new_feed \<Rightarrow> nat \<Rightarrow> ((js_error \<times> new_feed) + new_feed) \<times> nat" where
  "tryBlock env url text feed n =
     (case XMLParser_parse env text of
        None \<Rightarrow> (Inl (XMLError, feed), n)
      | Some xmlFeed \<Rightarrow>
          (case d_rss xmlFeed of
             Some xml \<Rightarrow> rssFeed env url xml feed n
           | None \<Rightarrow>
               (case d_feed xmlFeed of
                  Some atom \<Rightarrow> atomFeed env url atom feed n
                | None \<Rightarrow> (Inr feed, n))))"

definition parseFeed :: "env \<Rightarrow> nat \<Rightarrow> string \<times> string \<Rightarrow> new_feed \<times> nat" where
  "parseFeed env n raw =
     (case raw of (url, text) \<Rightarrow>
        (case tryBlock env url text (defaultFeed env n) (n + 1) of
           (Inl (error, feed), n') \<Rightarrow> (feed, n')
         | (Inr feed, n') \<Rightarrow> (feed, n')))"

text \<open>The map over the downloads that the filter kept, one after the other.\<close>

fun parseFeeds :: "env \<Rightarrow> nat \<Rightarrow> (string \<times> string) list \<Rightarrow> new_feed list" where
  "parseFeeds env n [] = []"
| "parseFeeds env n (raw # raws) =
     (case parseFeed env n raw of (feed, n') \<Rightarrow> feed # parseFeeds env n' raws)"

text \<open>
  A download that failed leaves \<^verbatim>\<open>""\<close> in \<^verbatim>\<open>rawFeeds\<close> (\<open>None\<close>), a download that
  succeeded the url and the text.  The filter keeps the entries with a text that is not
  empty.  The first reading of the clock in \<^verbatim>\<open>updateFeeds\<close> is the one of the log
  line at its start, so the normalization starts after one reading.
\<close>

definition newFeeds :: "env \<Rightarrow> (string \<times> string) option list \<Rightarrow> new_feed list" where
  "newFeeds env rawFeeds =
     parseFeeds env 1
       (List.map_filter
          (\<lambda>raw. case raw of
                    None \<Rightarrow> None
                  | Some (url, text) \<Rightarrow> if text \<noteq> [] then Some (url, text) else None)
          rawFeeds)"

text \<open>One cycle of \<^verbatim>\<open>updateFeeds\<close>: the store after it, which is what is written out.\<close>

definition updateFeeds :: "env \<Rightarrow> store \<Rightarrow> (string \<times> string) option list \<Rightarrow> store" where
  "updateFeeds env feeds rawFeeds = mergeFeeds feeds (newFeeds env rawFeeds)"

text \<open>An item whose link text, or guid text when it has no link, is refused by \<^verbatim>\<open>new URL\<close>.\<close>

definition item_url_throws :: "env \<Rightarrow> rss_item \<Rightarrow> bool" where
  "item_url_throws env item =
     (case i_link item of
        Some l \<Rightarrow> newURL env (n_text l) = Inl TypeError
      | None \<Rightarrow>
          (case i_guid item of
             Some g \<Rightarrow> newURL env (n_text g) = Inl TypeError
           | None \<Rightarrow> False))"

section \<open>The date resolver of the Go program\<close>









subsection \<open>The resolution as the specification words it\<close>





subsection \<open>The library's parser\<close>

text \<open>
  Modelled from the spec: \<^verbatim>\<open>time.Parse\<close> of Go's library, which the repository does
  not contain.  The model reads a text by a layout made of the elements \<^verbatim>\<open>02\<close>,
  \<^verbatim>\<open>Jan\<close>, \<^verbatim>\<open>2006\<close>, \<^verbatim>\<open>06\<close>, \<^verbatim>\<open>15\<close>, \<^verbatim>\<open>04\<close>, \<^verbatim>\<open>05\<close>, \<^verbatim>\<open>MST\<close>,
  \<^verbatim>\<open>-0700\<close> and of literal text, which is what the four patterns of the resolver are
  made of: day, month name, four-digit or two-digit year, time of day, zone name or
  numeric offset.  Each element is read as the library reads it.  The result is the
  instant, as seconds since the epoch and nanoseconds; the location that Go attaches to
  a time is left out.  \<open>leadingInt\<close> has no bound on the number: its callers here pass
  at most nine digits or refuse a number above 23.
\<close>








































section \<open>Coherence of keys and ids\<close>

definition articles_coherent :: "article_map \<Rightarrow> bool" where
  "articles_coherent articles = list_all (\<lambda>(x, a). a_id a = x) articles"

definition store_coherent :: "store \<Rightarrow> bool" where
  "store_coherent feeds =
     list_all (\<lambda>(k, feed). f_id feed = k \<and> articles_coherent (f_articles feed)) feeds"

section \<open>Example values\<close>

definition article0 :: article where
  "article0 = \<lparr> a_title = Some ''first'', a_link = Some ''https://x/1'', a_id = Some ''1'',
                a_published = Some 1000, a_updated = Some 2000 \<rparr>"

definition article1 :: article where
  "article1 = article0 \<lparr> a_title := Some ''first, revised'', a_updated := Some 3000 \<rparr>"

definition feed0 :: stored_feed where
  "feed0 = \<lparr> f_title = Some ''feed'', f_description = None, f_link = Some ''https://x/'',
             f_id = Some ''https://x/'', f_articles = [(Some ''1'', article0)],
             f_updated = Some 5000 \<rparr>"

definition store0 :: store where
  "store0 = [(Some ''https://x/'', feed0)]"

definition newFeed0 :: new_feed where
  "newFeed0 = \<lparr> f_title = Some ''renamed'', f_description = Some ''d'',
                f_link = Some ''https://x/'', f_id = Some ''https://x/'',
                f_articles = [article1], f_updated = Some 9000 \<rparr>"

definition text_node :: "string \<Rightarrow> xml_node" where
  "text_node s = \<lparr> n_text = Some s, n_rel = None, n_href = None \<rparr>"

definition item_bad :: rss_item where
  "item_bad = \<lparr> i_title = Some (text_node ''one''), i_link = Some (text_node ''not a url''),
                i_guid = None, i_pubDate = None \<rparr>"

definition item_good :: rss_item where
  "item_good = \<lparr> i_title = Some (text_node ''two''), i_link = Some (text_node ''https://x/2''),
                 i_guid = None, i_pubDate = None \<rparr>"

definition item_bare :: rss_item where
  "item_bare = \<lparr> i_title = Some (text_node ''three''), i_link = None, i_guid = None,
                 i_pubDate = None \<rparr>"

definition item_bad_date :: rss_item where
  "item_bad_date = \<lparr> i_title = Some (text_node ''four''), i_link = Some (text_node ''https://x/4''),
                     i_guid = None, i_pubDate = Some (text_node ''not a date'') \<rparr>"

definition channel0 :: "rss_item list \<Rightarrow> rss_channel" where
  "channel0 items = \<lparr> c_title = Some (text_node ''T''), c_description = None, c_link = None,
                       c_item = Some items, c_lastBuildDate = None, c_pubDate = None \<rparr>"

definition doc_rss_bad :: xml_doc where
  "doc_rss_bad = \<lparr> d_rss = Some \<lparr> rss_channel = Some (channel0 [item_bad, item_good]) \<rparr>,
                   d_feed = None \<rparr>"

definition doc_rss_good :: xml_doc where
  "doc_rss_good = \<lparr> d_rss = Some \<lparr> rss_channel = Some (channel0 [item_good, item_bare]) \<rparr>,
                    d_feed = None \<rparr>"

definition doc_unknown :: xml_doc where
  "doc_unknown = \<lparr> d_rss = None, d_feed = None \<rparr>"

definition entry_published_only :: atom_entry where
  "entry_published_only =
     \<lparr> e_title = Some (text_node ''p''), e_link = None, e_id = Some (text_node ''urn:p''),
       e_published = Some (text_node ''2020-01-01T00:00:00Z''), e_updated = None \<rparr>"

definition entry_updated_only :: atom_entry where
  "entry_updated_only =
     \<lparr> e_title = Some (text_node ''u''), e_link = None, e_id = Some (text_node ''urn:u''),
       e_published = None, e_updated = Some (text_node ''2020-01-01T00:00:00Z'') \<rparr>"

definition doc_atom :: xml_doc where
  "doc_atom =
     \<lparr> d_rss = None,
       d_feed = Some \<lparr> t_title = Some (text_node ''A''), t_subtitle = None,
                       t_link = Some (Links [\<lparr> n_text = None, n_rel = Some ''self'',
                                                n_href = Some ''https://x/atom'' \<rparr>,
                                              \<lparr> n_text = None, n_rel = Some ''alternate'',
                                                n_href = Some ''https://x/'' \<rparr>]),
                       t_id = Some (text_node ''urn:a''),
                       t_entry = Some [entry_updated_only, entry_published_only],
                       t_updated = None \<rparr> \<rparr>"

definition page_text :: string where
  "page_text = ''<html><body>no feed</body></html>''"

definition rss_bad_text :: string where
  "rss_bad_text =
     ''<rss><channel><title>T</title><item><title>one</title><link>not a url</link></item><item><title>two</title><link>https://x/2</link></item></channel></rss>''"

definition rss_good_text :: string where
  "rss_good_text =
     ''<rss><channel><title>T</title><item><title>two</title><link>https://x/2</link></item><item><title>three</title></item></channel></rss>''"

definition atom_text :: string where
  \<open>atom_text =
     ''<feed><title>A</title><link rel="self" href="https://x/atom"/><link rel="alternate" href="https://x/"/><id>urn:a</id><entry><title>u</title><id>urn:u</id><updated>2020-01-01T00:00:00Z</updated></entry><entry><title>p</title><id>urn:p</id><published>2020-01-01T00:00:00Z</published></entry></feed>''\<close>

text \<open>
  Example library functions: a sanitizer that changes nothing, a URL constructor that
  accepts the texts that start with \<^verbatim>\<open>https://\<close>, a date parser that knows one date,
  an XML parser that knows the four texts above, and a clock that advances by one
  millisecond with each reading.
\<close>

definition env0 :: env where
  "env0 =
     \<lparr> sanitizeHtml = (\<lambda>x. case x of None \<Rightarrow> [] | Some s \<Rightarrow> s),
       URL_href = (\<lambda>s. if take 8 s = ''https://'' then Some s else None),
       Date_parse = (\<lambda>s. if s = ''2020-01-01T00:00:00Z'' then Some 1577836800000 else None),
       XMLParser_parse =
         (\<lambda>t. if t = page_text then Some doc_unknown
              else if t = rss_bad_text then Some doc_rss_bad
              else if t = rss_good_text then Some doc_rss_good
              else if t = atom_text then Some doc_atom
              else None),
       clock = (\<lambda>n. 1700000000000 + int n) \<rparr>"

section \<open>Facts about maps\<close>

lemma map_get_map_set: "map_get (map_set m k v) k' = (if k' = k then Some v else map_get m k')"
  by (induction m) auto

lemma map_set_present: "map_get m k = Some v \<Longrightarrow> map_set m k v = m"
  by (induction m) (auto split: if_splits)

lemma map_set_twice: "map_set (map_set m k v) k w = map_set m k w"
  by (induction m) auto

lemma map_get_in_set: "map_get m k = Some v \<Longrightarrow> (k, v) \<in> set m"
  by (induction m) (auto split: if_splits)

section \<open>Facts about the article loop\<close>

lemma date_gt_irrefl: "\<not> date_gt t t"
  by (cases t) auto

lemma date_gt_trans_neg: "\<not> date_gt c s \<Longrightarrow> date_gt b s \<Longrightarrow> \<not> date_gt c b"
  by (cases c; cases s; cases b) auto

lemma storeArticle_settles: "settled (storeArticle m b) b"
  by (auto simp: settled_def storeArticle_def map_get_map_set date_gt_irrefl
           split: option.splits)

lemma storeArticle_keeps_settled: "settled m b \<Longrightarrow> settled (storeArticle m c) b"
  by (auto simp: settled_def storeArticle_def map_get_map_set
           split: option.splits dest: date_gt_trans_neg)

lemma foldl_keeps_settled: "settled m b \<Longrightarrow> settled (foldl storeArticle m cs) b"
  by (induction cs arbitrary: m) (auto intro: storeArticle_keeps_settled)

lemma foldl_settles: "b \<in> set bs \<Longrightarrow> settled (foldl storeArticle m bs) b"
proof (induction bs arbitrary: m)
  case Nil
  then show ?case by simp
next
  case (Cons c cs)
  show ?case
  proof (cases "b = c")
    case True
    then show ?thesis
      using foldl_keeps_settled [OF storeArticle_settles, of m c cs] by simp
  next
    case False
    with Cons show ?thesis by simp
  qed
qed

lemma storeArticle_settled_id: "settled m b \<Longrightarrow> storeArticle m b = m"
  by (auto simp: settled_def storeArticle_def split: option.splits)

lemma foldl_settled_id: "(\<And>b. b \<in> set bs \<Longrightarrow> settled m b) \<Longrightarrow> foldl storeArticle m bs = m"
  by (induction bs) (auto simp: storeArticle_settled_id)

lemma foldl_storeArticle_twice:
  "foldl storeArticle (foldl storeArticle m bs) bs = foldl storeArticle m bs"
  by (rule foldl_settled_id) (rule foldl_settles)

lemma mergeFeed_lookup:
  "map_get (mergeFeed feeds newFeed) (f_id newFeed) =
     Some (case map_get feeds (f_id newFeed) of
             Some feed \<Rightarrow>
               feed \<lparr> f_articles := foldl storeArticle (f_articles feed) (f_articles newFeed) \<rparr>
           | None \<Rightarrow>
               \<lparr> f_title = f_title newFeed, f_description = f_description newFeed,
                 f_link = f_link newFeed, f_id = f_id newFeed,
                 f_articles = foldl storeArticle [] (f_articles newFeed),
                 f_updated = f_updated newFeed \<rparr>)"
  by (simp add: mergeFeed_def Let_def map_get_map_set split: option.splits)

lemma mergeFeed_other:
  "k \<noteq> f_id newFeed \<Longrightarrow> map_get (mergeFeed feeds newFeed) k = map_get feeds k"
  by (simp add: mergeFeed_def Let_def map_get_map_set split: option.splits)

section \<open>Properties of the merge\<close>

text \<open>
  C1.  Merging the same normalized feed twice in a row gives the store that merging it
  once gives: after the first merge no article of the feed is newer than the stored
  article of its id.
\<close>

theorem mergeFeed_idempotent:
  "mergeFeed (mergeFeed feeds newFeed) newFeed = mergeFeed feeds newFeed"
proof -
  let ?k = "f_id newFeed"
  let ?once = "mergeFeed feeds newFeed"
  obtain g where g: "map_get ?once ?k = Some g"
    and arts: "foldl storeArticle (f_articles g) (f_articles newFeed) = f_articles g"
    by (cases "map_get feeds ?k")
       (simp_all add: mergeFeed_lookup foldl_storeArticle_twice)
  have "mergeFeed ?once newFeed = map_set ?once ?k g"
    unfolding mergeFeed_def [of ?once] using g arts by (simp add: Let_def)
  then show ?thesis
    using g by (simp add: map_set_present)
qed

theorem mergeFeed_idempotent_witness:
  "mergeFeed (mergeFeed store0 newFeed0) newFeed0 = mergeFeed store0 newFeed0
   \<and> mergeFeed store0 newFeed0 \<noteq> store0"
  using mergeFeed_idempotent [of store0 newFeed0]
  by (simp add: mergeFeed_def store0_def newFeed0_def feed0_def storeArticle_def
        article0_def article1_def)

lemma storeArticle_existing:
  "map_get articles (a_id b) = Some a \<Longrightarrow>
   map_get (storeArticle articles b) (a_id b) =
     Some (if date_gt (a_updated b) (a_updated a) then b else a)"
  by (simp add: storeArticle_def map_get_map_set)

lemma storeArticle_other:
  "a_id c \<noteq> x \<Longrightarrow> map_get (storeArticle articles c) x = map_get articles x"
  by (simp add: storeArticle_def map_get_map_set split: option.splits)

lemma foldl_storeArticle_only:
  "\<forall>c \<in> set bs. a_id c = a_id b \<longrightarrow> c = b \<Longrightarrow>
   map_get articles (a_id b) = Some s \<Longrightarrow>
   map_get (foldl storeArticle articles bs) (a_id b) =
     Some (if b \<in> set bs \<and> date_gt (a_updated b) (a_updated s) then b else s)"
proof (induction bs arbitrary: articles s)
  case Nil
  then show ?case by simp
next
  case (Cons c cs)
  show ?case
  proof (cases "a_id c = a_id b")
    case True
    with Cons.prems have c: "c = b" by simp
    let ?s = "if date_gt (a_updated b) (a_updated s) then b else s"
    have "map_get (storeArticle articles b) (a_id b) = Some ?s"
      using Cons.prems(2) by (rule storeArticle_existing)
    with Cons.IH [of "storeArticle articles b" ?s] Cons.prems(1) c
    show ?thesis by (auto simp: date_gt_irrefl)
  next
    case False
    then have "map_get (storeArticle articles c) (a_id b) = Some s"
      using Cons.prems(2) by (simp add: storeArticle_other)
    with Cons.IH [of "storeArticle articles c" s] Cons.prems(1) False
    show ?thesis by auto
  qed
qed

text \<open>
  C3.  When the feed's articles hold \<open>a\<close> under the id of an incoming article \<open>b\<close>,
  storing \<open>b\<close> leaves \<open>b\<close> under that id if \<open>b\<close>'s \<^verbatim>\<open>updated\<close> is greater than
  \<open>a\<close>'s, and leaves \<open>a\<close> otherwise.  The same holds of the merge of a whole feed in
  which \<open>b\<close> is the only article of that id.
\<close>

theorem monotonic_replacement:
  assumes "map_get articles (a_id b) = Some a"
  shows "map_get (storeArticle articles b) (a_id b) =
           Some (if date_gt (a_updated b) (a_updated a) then b else a)
         \<and> (\<forall>feeds feed newFeed.
               map_get feeds (f_id newFeed) = Some feed \<and> f_articles feed = articles \<and>
               b \<in> set (f_articles newFeed) \<and>
               (\<forall>c \<in> set (f_articles newFeed). a_id c = a_id b \<longrightarrow> c = b) \<longrightarrow>
               (\<exists>feed'. map_get (mergeFeed feeds newFeed) (f_id newFeed) = Some feed' \<and>
                  map_get (f_articles feed') (a_id b) =
                    Some (if date_gt (a_updated b) (a_updated a) then b else a)))"
proof (intro conjI allI impI)
  show "map_get (storeArticle articles b) (a_id b) =
          Some (if date_gt (a_updated b) (a_updated a) then b else a)"
    using assms by (rule storeArticle_existing)
next
  fix feeds :: store and feed :: stored_feed and newFeed :: new_feed
  assume h: "map_get feeds (f_id newFeed) = Some feed \<and> f_articles feed = articles \<and>
             b \<in> set (f_articles newFeed) \<and>
             (\<forall>c \<in> set (f_articles newFeed). a_id c = a_id b \<longrightarrow> c = b)"
  let ?feed' = "feed \<lparr> f_articles := foldl storeArticle articles (f_articles newFeed) \<rparr>"
  have "map_get (mergeFeed feeds newFeed) (f_id newFeed) = Some ?feed'"
    using h by (simp add: mergeFeed_lookup)
  moreover have "map_get (f_articles ?feed') (a_id b) =
                   Some (if date_gt (a_updated b) (a_updated a) then b else a)"
    using foldl_storeArticle_only [of "f_articles newFeed" b articles a] h assms by simp
  ultimately show "\<exists>feed'. map_get (mergeFeed feeds newFeed) (f_id newFeed) = Some feed' \<and>
                     map_get (f_articles feed') (a_id b) =
                       Some (if date_gt (a_updated b) (a_updated a) then b else a)"
    by blast
qed

theorem monotonic_replacement_witness:
  "map_get (storeArticle (f_articles feed0) article1) (Some ''1'') = Some article1
   \<and> map_get (storeArticle (storeArticle (f_articles feed0) article1) article0) (Some ''1'')
       = Some article1
   \<and> (\<exists>feed'. map_get (mergeFeed store0 newFeed0) (f_id newFeed0) = Some feed' \<and>
         map_get (f_articles feed') (Some ''1'') = Some article1)"
proof -
  have a: "map_get (f_articles feed0) (a_id article1) = Some article0"
    by (simp add: feed0_def article0_def article1_def)
  have b: "map_get (storeArticle (f_articles feed0) article1) (a_id article0) = Some article1"
    by (simp add: feed0_def article0_def article1_def storeArticle_def)
  have c: "map_get store0 (f_id newFeed0) = Some feed0 \<and> f_articles feed0 = f_articles feed0 \<and>
           article1 \<in> set (f_articles newFeed0) \<and>
           (\<forall>c \<in> set (f_articles newFeed0). a_id c = a_id article1 \<longrightarrow> c = article1)"
    by (simp add: store0_def newFeed0_def)
  have gt: "date_gt (a_updated article1) (a_updated article0)"
       "\<not> date_gt (a_updated article0) (a_updated article1)"
       "a_id article1 = Some ''1''" "a_id article0 = Some ''1''"
    by (simp_all add: article0_def article1_def)
  from monotonic_replacement [OF a] monotonic_replacement [OF b] c gt
  show ?thesis by (simp del: map_get.simps)
qed

lemma storeArticle_keeps_key:
  "map_get articles x = Some a' \<and> (a' = a \<or> a_id a' = x) \<Longrightarrow>
   \<exists>a''. map_get (storeArticle articles c) x = Some a'' \<and> (a'' = a \<or> a_id a'' = x)"
  by (auto simp: storeArticle_def map_get_map_set split: option.splits)

lemma foldl_storeArticle_keeps_key:
  "map_get articles x = Some a' \<and> (a' = a \<or> a_id a' = x) \<Longrightarrow>
   \<exists>a''. map_get (foldl storeArticle articles cs) x = Some a'' \<and> (a'' = a \<or> a_id a'' = x)"
proof (induction cs arbitrary: articles a')
  case Nil
  then show ?case by simp
next
  case (Cons c cs)
  from storeArticle_keeps_key [OF Cons.prems, of c]
  obtain a'' where "map_get (storeArticle articles c) x = Some a'' \<and> (a'' = a \<or> a_id a'' = x)"
    by blast
  from Cons.IH [OF this] show ?case by simp
qed

text \<open>
  C4.  A feed id that the store holds before a merge is held afterwards, and every
  article id that the feed under it held is still held by it: the article under that id
  is the one that was there, or one whose \<^verbatim>\<open>id\<close> is that same id.
\<close>

theorem mergeFeed_never_deletes:
  assumes "map_get feeds k = Some feed"
  shows "\<exists>feed'. map_get (mergeFeed feeds newFeed) k = Some feed' \<and>
           (\<forall>x a. map_get (f_articles feed) x = Some a \<longrightarrow>
              (\<exists>a'. map_get (f_articles feed') x = Some a' \<and> (a' = a \<or> a_id a' = x)))"
proof (cases "k = f_id newFeed")
  case False
  then have "map_get (mergeFeed feeds newFeed) k = Some feed"
    using assms by (simp add: mergeFeed_other)
  then show ?thesis by simp
next
  case True
  let ?feed' = "feed \<lparr> f_articles := foldl storeArticle (f_articles feed) (f_articles newFeed) \<rparr>"
  have "map_get (mergeFeed feeds newFeed) k = Some ?feed'"
    using assms True by (simp add: mergeFeed_lookup)
  moreover have "\<exists>a'. map_get (f_articles ?feed') x = Some a' \<and> (a' = a \<or> a_id a' = x)"
    if "map_get (f_articles feed) x = Some a" for x a
    using foldl_storeArticle_keeps_key [of "f_articles feed" x a a "f_articles newFeed"] that
    by simp
  ultimately show ?thesis by blast
qed

theorem mergeFeed_never_deletes_witness:
  "map_get store0 (Some ''https://x/'') = Some feed0 \<and>
   (\<exists>feed'. map_get (mergeFeed store0 newFeed0) (Some ''https://x/'') = Some feed' \<and>
      (\<exists>a'. map_get (f_articles feed') (Some ''1'') = Some a' \<and>
         (a' = article0 \<or> a_id a' = Some ''1'')))"
proof -
  have a: "map_get store0 (Some ''https://x/'') = Some feed0"
    by (simp add: store0_def)
  have b: "map_get (f_articles feed0) (Some ''1'') = Some article0"
    by (simp add: feed0_def)
  from mergeFeed_never_deletes [OF a, of newFeed0] b a show ?thesis
    by blast
qed

text \<open>
  C8.  When the store holds a feed under the id of the incoming feed, the merge leaves
  that feed's \<^verbatim>\<open>title\<close>, \<^verbatim>\<open>description\<close>, \<^verbatim>\<open>link\<close>, \<^verbatim>\<open>id\<close> and
  \<^verbatim>\<open>updated\<close> as they were; only its articles are written.
\<close>

theorem mergeFeed_keeps_metadata:
  assumes "map_get feeds (f_id newFeed) = Some feed"
  shows "\<exists>feed'. map_get (mergeFeed feeds newFeed) (f_id newFeed) = Some feed' \<and>
           f_title feed' = f_title feed \<and>
           f_description feed' = f_description feed \<and>
           f_link feed' = f_link feed \<and>
           f_id feed' = f_id feed \<and>
           f_updated feed' = f_updated feed \<and>
           feed' = feed \<lparr> f_articles := f_articles feed' \<rparr>"
  using assms by (simp add: mergeFeed_lookup)

theorem mergeFeed_keeps_metadata_witness:
  "map_get store0 (f_id newFeed0) = Some feed0 \<and>
   f_title newFeed0 \<noteq> f_title feed0 \<and>
   (\<exists>feed'. map_get (mergeFeed store0 newFeed0) (f_id newFeed0) = Some feed' \<and>
      f_title feed' = Some ''feed'' \<and>
      f_description feed' = None \<and>
      f_link feed' = Some ''https://x/'' \<and>
      f_id feed' = Some ''https://x/'' \<and>
      f_updated feed' = Some 5000)"
proof -
  have a: "map_get store0 (f_id newFeed0) = Some feed0"
    by (simp add: store0_def newFeed0_def)
  have b: "f_title feed0 = Some ''feed''" "f_description feed0 = None"
    "f_link feed0 = Some ''https://x/''" "f_id feed0 = Some ''https://x/''"
    "f_updated feed0 = Some 5000" "f_title newFeed0 = Some ''renamed''"
    by (simp_all add: feed0_def newFeed0_def)
  from mergeFeed_keeps_metadata [OF a] obtain feed' where
    "map_get (mergeFeed store0 newFeed0) (f_id newFeed0) = Some feed'"
    "f_title feed' = f_title feed0" "f_description feed' = f_description feed0"
    "f_link feed' = f_link feed0" "f_id feed' = f_id feed0" "f_updated feed' = f_updated feed0"
    by blast
  with a b show ?thesis by simp
qed

section \<open>Key coherence\<close>

lemma list_all_map_set: "list_all P m \<Longrightarrow> P (k, v) \<Longrightarrow> list_all P (map_set m k v)"
  by (induction m) auto

lemma storeArticle_coherent:
  "articles_coherent articles \<Longrightarrow> articles_coherent (storeArticle articles c)"
  unfolding articles_coherent_def storeArticle_def
  by (auto split: option.splits intro: list_all_map_set)

lemma foldl_storeArticle_coherent:
  "articles_coherent articles \<Longrightarrow> articles_coherent (foldl storeArticle articles cs)"
  by (induction cs arbitrary: articles) (auto intro: storeArticle_coherent)

lemma loadArticles_step_coherent:
  "articles_coherent acc \<Longrightarrow>
   articles_coherent
     (foldl (\<lambda>articles rawArticle.
               let article = loadArticle rawArticle
               in map_set articles (a_id article) article) acc rawArticles)"
proof (induction rawArticles arbitrary: acc)
  case Nil
  then show ?case by simp
next
  case (Cons r rs)
  have "articles_coherent (map_set acc (a_id (loadArticle r)) (loadArticle r))"
    using Cons.prems unfolding articles_coherent_def by (auto intro: list_all_map_set)
  from Cons.IH [OF this] show ?case by (simp add: Let_def)
qed

lemma loadArticles_coherent: "articles_coherent (loadArticles rawArticles)"
  unfolding loadArticles_def
  by (rule loadArticles_step_coherent) (simp add: articles_coherent_def)

lemma loadFeeds_step_coherent:
  "store_coherent acc \<Longrightarrow>
   store_coherent
     (foldl (\<lambda>feeds rawFeed.
               let feed = loadFeed rawFeed
               in map_set feeds (f_id feed) feed) acc rawFeedList)"
proof (induction rawFeedList arbitrary: acc)
  case Nil
  then show ?case by simp
next
  case (Cons r rs)
  have "articles_coherent (f_articles (loadFeed r))"
    by (simp add: loadFeed_def loadArticles_coherent)
  then have "store_coherent (map_set acc (f_id (loadFeed r)) (loadFeed r))"
    using Cons.prems unfolding store_coherent_def by (auto intro: list_all_map_set)
  from Cons.IH [OF this] show ?case by (simp add: Let_def)
qed

lemma store_coherent_lookup:
  "store_coherent feeds \<Longrightarrow> map_get feeds k = Some feed \<Longrightarrow>
   f_id feed = k \<and> articles_coherent (f_articles feed)"
  by (auto simp: store_coherent_def list_all_iff dest: map_get_in_set)

lemma mergeFeed_coherent:
  assumes "store_coherent feeds"
  shows "store_coherent (mergeFeed feeds newFeed)"
proof (cases "map_get feeds (f_id newFeed)")
  case None
  let ?feed = "\<lparr> f_title = f_title newFeed, f_description = f_description newFeed,
                  f_link = f_link newFeed, f_id = f_id newFeed,
                  f_articles = foldl storeArticle [] (f_articles newFeed),
                  f_updated = f_updated newFeed \<rparr>"
  have m: "mergeFeed feeds newFeed = map_set feeds (f_id newFeed) ?feed"
    using None by (simp add: mergeFeed_def Let_def map_set_twice)
  have "articles_coherent (f_articles ?feed)"
    using foldl_storeArticle_coherent [of "[]"] by (simp add: articles_coherent_def)
  then show ?thesis
    using assms unfolding m store_coherent_def by (auto intro: list_all_map_set)
next
  case (Some feed)
  let ?feed = "feed \<lparr> f_articles := foldl storeArticle (f_articles feed) (f_articles newFeed) \<rparr>"
  have m: "mergeFeed feeds newFeed = map_set feeds (f_id newFeed) ?feed"
    using Some by (simp add: mergeFeed_def)
  from store_coherent_lookup [OF assms Some]
  have "f_id ?feed = f_id newFeed" "articles_coherent (f_articles ?feed)"
    by (simp_all add: foldl_storeArticle_coherent)
  then show ?thesis
    using assms unfolding m store_coherent_def by (auto intro: list_all_map_set)
qed

text \<open>
  C10.  Every key of the store is the \<^verbatim>\<open>id\<close> of the feed under it, and every key of a
  feed's articles is the \<^verbatim>\<open>id\<close> of the article under it (\<^verbatim>\<open>undefined\<close> included):
  the loader builds such a store from any file, and a merge keeps a store so.
\<close>

theorem store_key_coherence:
  "store_coherent (loadFeeds rawFeedList) \<and>
   (store_coherent feeds \<longrightarrow> store_coherent (mergeFeed feeds newFeed))"
proof
  show "store_coherent (loadFeeds rawFeedList)"
    unfolding loadFeeds_def
    by (rule loadFeeds_step_coherent) (simp add: store_coherent_def)
  show "store_coherent feeds \<longrightarrow> store_coherent (mergeFeed feeds newFeed)"
    by (simp add: mergeFeed_coherent)
qed

theorem store_key_coherence_witness:
  "store_coherent store0 \<and>
   store_coherent (loadFeeds (flattened store0)) \<and>
   store_coherent (mergeFeed store0 (newFeed0 \<lparr> f_id := None \<rparr>)) \<and>
   map_get (mergeFeed store0 (newFeed0 \<lparr> f_id := None \<rparr>)) None \<noteq> None"
proof -
  have a: "store_coherent store0"
    by (simp add: store_coherent_def articles_coherent_def store0_def feed0_def article0_def)
  have b: "map_get (mergeFeed store0 (newFeed0 \<lparr> f_id := None \<rparr>)) None \<noteq> None"
    using mergeFeed_lookup [of store0 "newFeed0 \<lparr> f_id := None \<rparr>"] by simp
  from store_key_coherence [of "flattened store0" store0 "newFeed0 \<lparr> f_id := None \<rparr>"] a b
  show ?thesis by simp
qed

section \<open>The round trip through the file\<close>

lemma newDate_json_toJSON: "d \<noteq> None \<Longrightarrow> newDate_json (toJSON d) = d"
  by (cases d) (simp_all add: toJSON_def)

lemma loadArticle_article_json:
  "a_published a \<noteq> None \<Longrightarrow>
   loadArticle (article_json a) = a \<lparr> a_updated := a_published a \<rparr>"
  by (simp add: loadArticle_def article_json_def newDate_json_toJSON)

text \<open>
  C2, evaluated.  Saving and loading the store \<open>store0\<close>, whose one article was
  published at 1000 and updated at 2000, gives a store whose article was updated at 1000:
  the loader reads \<^verbatim>\<open>rawArticle.published\<close> for \<^verbatim>\<open>updated\<close>.
\<close>

theorem load_flattened_loses_updated:
  "loadFeeds (flattened store0) =
     [(Some ''https://x/'',
       feed0 \<lparr> f_articles := [(Some ''1'', article0 \<lparr> a_updated := Some 1000 \<rparr>)] \<rparr>)]
   \<and> loadFeeds (flattened store0) \<noteq> store0"
  by (simp add: loadFeeds_def flattened_def loadFeed_def loadArticles_def loadArticle_def
        article_json_def toJSON_def map_values_def store0_def feed0_def article0_def)

section \<open>Normalization of RSS items\<close>

lemma mapThrow_all:
  "\<forall>x \<in> set xs. \<forall>m. \<exists>y. f m x = Inr y \<Longrightarrow>
   \<exists>ys. mapThrow f n xs = (Inr ys, n + 2 * length xs) \<and> length ys = length xs \<and>
        (\<forall>i < length xs. f (n + 2 * i) (xs ! i) = Inr (ys ! i))"
proof (induction xs arbitrary: n)
  case Nil
  then show ?case by simp
next
  case (Cons x xs)
  from Cons.prems have "\<exists>y. f n x = Inr y" by simp
  then obtain y where y: "f n x = Inr y" ..
  from Cons.prems have "\<forall>x \<in> set xs. \<forall>m. \<exists>y. f m x = Inr y" by simp
  from Cons.IH [OF this, of "n + 2"] obtain ys
    where ys: "mapThrow f (n + 2) xs = (Inr ys, n + 2 + 2 * length xs)"
      and len: "length ys = length xs"
      and nth: "\<forall>i < length xs. f (n + 2 + 2 * i) (xs ! i) = Inr (ys ! i)"
    by blast
  have "f (n + 2 * i) ((x # xs) ! i) = Inr ((y # ys) ! i)" if "i < length (x # xs)" for i
  proof (cases i)
    case 0
    with y show ?thesis by simp
  next
    case (Suc j)
    with that nth have "f (n + 2 + 2 * j) (xs ! j) = Inr (ys ! j)" by simp
    with Suc show ?thesis by (simp add: add.assoc)
  qed
  with y ys len show ?case by simp
qed

lemma newURL_cases: "newURL env x = Inl TypeError \<or> (\<exists>href. newURL env x = Inr href)"
  by (simp add: newURL_def split: option.splits)

lemma rssArticle_returns:
  assumes "\<not> item_url_throws env item"
  shows "\<exists>a. rssArticle env n item = Inr a"
proof (cases "i_link item")
  case None
  note link = this
  show ?thesis
  proof (cases "i_guid item")
    case None
    with link show ?thesis by (simp add: rssArticle_def Let_def)
  next
    case (Some g)
    with link assms newURL_cases [of env "n_text g"]
    obtain href where "newURL env (n_text g) = Inr href"
      by (auto simp: item_url_throws_def)
    with link Some show ?thesis by (simp add: rssArticle_def Let_def)
  qed
next
  case (Some l)
  with assms newURL_cases [of env "n_text l"]
  obtain href where "newURL env (n_text l) = Inr href"
    by (auto simp: item_url_throws_def)
  with Some show ?thesis by (simp add: rssArticle_def Let_def)
qed

lemma rssArticle_bare:
  "i_link item = None \<Longrightarrow> i_guid item = None \<Longrightarrow>
   \<exists>a. rssArticle env n item = Inr a \<and> a_id a = None \<and> a_link a = None"
  by (simp add: rssArticle_def Let_def defaultArticle_def split: option.splits)

lemma parseFeed_rss_articles:
  assumes "XMLParser_parse env text = Some doc" and "d_rss doc = Some xml"
    and "rss_channel xml = Some rss" and "c_item rss = Some items"
    and "\<not> has_text (c_link rss) \<or> newURL env (text_of (c_link rss)) \<noteq> Inl TypeError"
  shows "f_articles (fst (parseFeed env n (url, text))) =
           (case fst (mapThrow (rssArticle env) (n + 1) items) of
              Inl e \<Rightarrow> []
            | Inr articles \<Rightarrow> articles)"
proof -
  from assms(5) newURL_cases [of env "text_of (c_link rss)"]
  have "\<not> has_text (c_link rss) \<or> (\<exists>href. newURL env (text_of (c_link rss)) = Inr href)"
    by auto
  then show ?thesis
    using assms(1-4)
    by (auto simp: parseFeed_def tryBlock_def rssFeed_def Let_def defaultFeed_def
             split: option.splits sum.splits prod.splits)
qed

lemmas example_defs =
  env0_def page_text_def rss_bad_text_def rss_good_text_def atom_text_def doc_unknown_def
  doc_rss_bad_def doc_rss_good_def doc_atom_def channel0_def
  item_bad_def item_good_def item_bare_def item_bad_date_def text_node_def
  entry_published_only_def entry_updated_only_def

lemmas normalize_defs =
  parseFeed_def tryBlock_def rssFeed_def atomFeed_def rssArticle_def atomArticle_def
  defaultFeed_def defaultArticle_def newURL_def newDate_def has_text_def text_of_def
  sanitized_text_def Let_def

text \<open>
  An item whose link \<^verbatim>\<open>new URL\<close> refuses ends the map over the items: the second
  item of this document is well formed, and the feed has no article.  The loop over the
  items in the Go program copies the link text and has nothing that can fail.
\<close>

lemma rss_bad_item_aborts_items:
  "rssArticle env0 4 item_good =
     Inr \<lparr> a_title = Some ''two'', a_link = Some ''https://x/2'', a_id = Some ''https://x/2'',
           a_published = Some 1700000000004, a_updated = Some 1700000000005 \<rparr>
   \<and> parseFeed env0 1 (''https://x/rss'', rss_bad_text) =
       (\<lparr> f_title = Some ''T'', f_description = None, f_link = Some ''https://x/rss'',
          f_id = Some ''https://x/rss'', f_articles = [], f_updated = Some 1700000000001 \<rparr>, 4)"
  by (simp add: normalize_defs example_defs)

text \<open>
  C5, as stated, fails.  The second item of this document has neither link nor guid, so
  its article has neither id nor link; it is not dropped, the feed has it.
\<close>

theorem rss_bare_item_is_emitted:
  "parseFeed env0 1 (''https://x/rss'', rss_good_text) =
     (\<lparr> f_title = Some ''T'', f_description = None, f_link = Some ''https://x/rss'',
        f_id = Some ''https://x/rss'',
        f_articles =
          [\<lparr> a_title = Some ''two'', a_link = Some ''https://x/2'', a_id = Some ''https://x/2'',
             a_published = Some 1700000000002, a_updated = Some 1700000000003 \<rparr>,
           \<lparr> a_title = Some ''three'', a_link = None, a_id = None,
             a_published = Some 1700000000004, a_updated = Some 1700000000005 \<rparr>],
        f_updated = Some 1700000000001 \<rparr>, 6)"
  by (simp add: normalize_defs example_defs)

text \<open>
  C5, amended.  Take an RSS document that parses, with a channel and an item array,
  whose channel link text, when it is there and not empty, is accepted by
  \<^verbatim>\<open>new URL\<close>, and in which \<^verbatim>\<open>new URL\<close> accepts the link text of every item (the
  guid text for an item without link).  Then the feed has exactly one article for each
  item, in the order of the items: the article that the callback builds from the item.
  No item is dropped for want of an identity: \<^verbatim>\<open>new URL\<close> never refuses an item with
  neither link nor guid, and its article has \<^verbatim>\<open>id\<close> and \<^verbatim>\<open>link\<close> undefined.
\<close>

theorem rss_items_one_article_each:
  assumes "XMLParser_parse env text = Some doc" and "d_rss doc = Some xml"
    and "rss_channel xml = Some rss" and "c_item rss = Some items"
    and "\<not> has_text (c_link rss) \<or> newURL env (text_of (c_link rss)) \<noteq> Inl TypeError"
    and "\<forall>item \<in> set items. \<not> item_url_throws env item"
  shows "length (f_articles (fst (parseFeed env n (url, text)))) = length items
         \<and> (\<forall>i < length items.
               rssArticle env (n + 1 + 2 * i) (items ! i) =
                 Inr (f_articles (fst (parseFeed env n (url, text))) ! i))
         \<and> (\<forall>item m. i_link item = None \<and> i_guid item = None \<longrightarrow>
               \<not> item_url_throws env item \<and>
               (\<exists>a. rssArticle env m item = Inr a \<and> a_id a = None \<and> a_link a = None))"
proof -
  from assms(6) have "\<forall>item \<in> set items. \<forall>m. \<exists>a. rssArticle env m item = Inr a"
    by (simp add: rssArticle_returns)
  from mapThrow_all [OF this, of "n + 1"] obtain articles
    where m: "mapThrow (rssArticle env) (n + 1) items = (Inr articles, n + 1 + 2 * length items)"
      and len: "length articles = length items"
      and nth: "\<forall>i < length items. rssArticle env (n + 1 + 2 * i) (items ! i) = Inr (articles ! i)"
    by blast
  have arts: "f_articles (fst (parseFeed env n (url, text))) = articles"
    using m by (simp add: parseFeed_rss_articles [OF assms(1-5)])
  have bare: "\<not> item_url_throws env item \<and>
              (\<exists>a. rssArticle env m item = Inr a \<and> a_id a = None \<and> a_link a = None)"
    if "i_link item = None \<and> i_guid item = None" for item m
    using that by (simp add: item_url_throws_def rssArticle_bare)
  from len nth bare show ?thesis unfolding arts by blast
qed

theorem rss_items_one_article_each_witness:
  "\<not> item_url_throws env0 item_good \<and> \<not> item_url_throws env0 item_bare \<and>
   length (f_articles (fst (parseFeed env0 1 (''https://x/rss'', rss_good_text)))) = 2 \<and>
   rssArticle env0 2 item_good =
     Inr (f_articles (fst (parseFeed env0 1 (''https://x/rss'', rss_good_text))) ! 0) \<and>
   rssArticle env0 4 item_bare =
     Inr (f_articles (fst (parseFeed env0 1 (''https://x/rss'', rss_good_text))) ! 1) \<and>
   (\<exists>a. rssArticle env0 4 item_bare = Inr a \<and> a_id a = None \<and> a_link a = None)"
proof -
  have good: "XMLParser_parse env0 rss_good_text = Some doc_rss_good"
    "d_rss doc_rss_good = Some \<lparr> rss_channel = Some (channel0 [item_good, item_bare]) \<rparr>"
    by (simp_all add: env0_def doc_rss_good_def page_text_def rss_bad_text_def rss_good_text_def)
  have ch: "rss_channel \<lparr> rss_channel = Some (channel0 [item_good, item_bare]) \<rparr> =
              Some (channel0 [item_good, item_bare])"
    "c_item (channel0 [item_good, item_bare]) = Some [item_good, item_bare]"
    "\<not> has_text (c_link (channel0 [item_good, item_bare])) \<or>
       newURL env0 (text_of (c_link (channel0 [item_good, item_bare]))) \<noteq> Inl TypeError"
    by (simp_all add: channel0_def has_text_def)
  have items: "\<not> item_url_throws env0 item_good" "\<not> item_url_throws env0 item_bare"
    by (simp_all add: item_url_throws_def newURL_def example_defs)
  then have all: "\<forall>item \<in> set [item_good, item_bare]. \<not> item_url_throws env0 item"
    by simp
  have bare: "i_link item_bare = None \<and> i_guid item_bare = None"
    by (simp add: item_bare_def)
  let ?arts = "f_articles (fst (parseFeed env0 1 (''https://x/rss'', rss_good_text)))"
  from rss_items_one_article_each [OF good ch all, of 1 "''https://x/rss''"]
  have len: "length ?arts = length [item_good, item_bare]"
    and nth: "\<forall>i < length [item_good, item_bare].
                rssArticle env0 (1 + 1 + 2 * i) ([item_good, item_bare] ! i) = Inr (?arts ! i)"
    and drop: "\<forall>item m. i_link item = None \<and> i_guid item = None \<longrightarrow>
                 \<not> item_url_throws env0 item \<and>
                 (\<exists>a. rssArticle env0 m item = Inr a \<and> a_id a = None \<and> a_link a = None)"
    by blast+
  have n0: "rssArticle env0 2 item_good = Inr (?arts ! 0)"
    using nth [rule_format, of 0] by (simp add: eval_nat_numeral)
  have n1: "rssArticle env0 4 item_bare = Inr (?arts ! 1)"
    using nth [rule_format, of 1] by (simp add: eval_nat_numeral)
  from drop bare have "\<exists>a. rssArticle env0 4 item_bare = Inr a \<and> a_id a = None \<and> a_link a = None"
    by blast
  with items len n0 n1 show ?thesis by simp
qed

section \<open>A document that is neither RSS nor Atom\<close>

text \<open>
  C6, evaluated.  A downloaded text whose root is neither \<^verbatim>\<open>rss\<close> nor \<^verbatim>\<open>feed\<close>
  gives the default feed, whose \<^verbatim>\<open>id\<close> is \<^verbatim>\<open>undefined\<close>, and the merge inserts a feed
  under the key \<^verbatim>\<open>undefined\<close>: the store is not what it was.
\<close>

theorem unknown_root_inserts_feed:
  "newFeeds env0 [Some (''https://x/page'', page_text)] =
     [\<lparr> f_title = None, f_description = None, f_link = None, f_id = None,
        f_articles = [], f_updated = Some 1700000000001 \<rparr>]
   \<and> updateFeeds env0 [] [Some (''https://x/page'', page_text)] =
       [(None, \<lparr> f_title = None, f_description = None, f_link = None, f_id = None,
                 f_articles = [], f_updated = Some 1700000000001 \<rparr>)]
   \<and> updateFeeds env0 store0 [Some (''https://x/page'', page_text)] =
       store0 @ [(None, \<lparr> f_title = None, f_description = None, f_link = None, f_id = None,
                           f_articles = [], f_updated = Some 1700000000001 \<rparr>)]"
  by (simp add: updateFeeds_def mergeFeeds_def mergeFeed_def newFeeds_def
        normalize_defs example_defs store0_def)

section \<open>Dates of an Atom entry\<close>

text \<open>
  C9, evaluated.  An entry with \<^verbatim>\<open>published\<close> and without \<^verbatim>\<open>updated\<close> makes the
  callback throw, and the feed loses all its articles.  An entry with \<^verbatim>\<open>updated\<close> and
  without \<^verbatim>\<open>published\<close> gets the parsed \<^verbatim>\<open>updated\<close> as \<^verbatim>\<open>published\<close> and the clock
  as \<^verbatim>\<open>updated\<close>.
\<close>

theorem atom_entry_updated_misread:
  "atomArticle env0 4 entry_published_only = Inl TypeError
   \<and> atomArticle env0 2 entry_updated_only =
       Inr \<lparr> a_title = Some ''u'', a_link = None, a_id = Some ''urn:u'',
             a_published = Some 1577836800000, a_updated = Some 1700000000003 \<rparr>
   \<and> parseFeed env0 1 (''https://x/atom'', atom_text) =
       (\<lparr> f_title = Some ''A'', f_description = None, f_link = Some ''https://x/atom'',
          f_id = Some ''urn:a'', f_articles = [], f_updated = Some 1700000000001 \<rparr>, 6)"
  by (simp add: normalize_defs example_defs)

section \<open>The RSS date resolver\<close>























end
